theory Spec2Isabelle
  imports Main
begin

section \<open>JavaScript values\<close>

text \<open>
  The values that travel through the handlers: path parameters, query values, request
  bodies, failure objects, rows and response bodies. Numbers are the integers (status
  codes, ids, votes) and \<open>NaN\<close>. An object is the list of its properties.
\<close>

datatype jsval =
    Undefined
  | Null
  | Bool bool
  | Num int
  | NaN
  | Str string
  | Arr "jsval list"
  | Obj "(string \<times> jsval) list"

type_synonym obj = "(string \<times> jsval) list"

text \<open>Reading a property: \<open>undefined\<close> when the object has no such property.\<close>

definition property :: "obj \<Rightarrow> string \<Rightarrow> jsval" where
  "property ob k = (case map_of ob k of None \<Rightarrow> Undefined | Some v \<Rightarrow> v)"

text \<open>
  What \<open>if (v)\<close> and \<open>a && b\<close> test: \<open>undefined\<close>, \<open>null\<close>, \<open>false\<close>, \<open>0\<close>, \<open>NaN\<close>
  and the empty string are falsy, everything else is truthy.
\<close>

fun truthy :: "jsval \<Rightarrow> bool" where
  "truthy Undefined = False"
| "truthy Null = False"
| "truthy (Bool b) = b"
| "truthy (Num n) = (n \<noteq> 0)"
| "truthy NaN = False"
| "truthy (Str s) = (s \<noteq> [])"
| "truthy (Arr xs) = True"
| "truthy (Obj kvs) = True"

section \<open>Requests, responses and the Express stack\<close>

datatype verb = GET | HEAD | POST | PUT | PATCH | DELETE | OPTIONS

text \<open>
  A request as a handler sees it. The path is the list of its segments
  (\<open>/api/articles/5\<close> is \<open>[''api'', ''articles'', ''5'']\<close>), in lower case and
  without a trailing slash, which Express would both ignore; \<open>body\<close> is what
  \<open>express.json()\<close> (src/app.js line 16) left in \<open>request.body\<close>, the empty object when
  no payload was sent; \<open>params\<close> is filled in by the route that matched.
\<close>

record request =
  http_method :: verb
  path :: "string list"
  query :: obj
  body :: obj
  params :: obj

text \<open>
  The call \<open>response.status(c).send(b)\<close> with its two arguments; \<open>send()\<close> without
  argument sends \<open>Undefined\<close>.
\<close>

record response =
  status :: jsval
  sent :: jsval

text \<open>
  The call goes through only with a status that the HTTP layer takes. Express 4 (the
  version that accepts the path \<open>/*\<close> of src/app.js) hands the status as it is to
  Node, whose \<open>writeHead\<close> computes \<open>status | 0\<close> and throws a RangeError with the code
  \<open>ERR_HTTP_INVALID_STATUS_CODE\<close> unless the result is from 100 to 999. For a number
  \<open>| 0\<close> is the wrap-around to 32 bits; \<open>undefined\<close>, \<open>null\<close>, \<open>false\<close>, \<open>NaN\<close> and an
  object give 0 and \<open>true\<close> gives 1. A string or an array is first read as a number by
  JavaScript's conversion of text, which is not computed here: such a status is left
  unread.
\<close>

definition int32 :: "int \<Rightarrow> int" where
  "int32 n = (n + 2147483648) mod 4294967296 - 2147483648"

datatype reading = Taken int | Refused | Unread

fun reads_status :: "jsval \<Rightarrow> reading" where
  "reads_status (Num n) =
     (if 100 \<le> int32 n \<and> int32 n \<le> 999 then Taken (int32 n) else Refused)"
| "reads_status (Str cs) = Unread"
| "reads_status (Arr xs) = Unread"
| "reads_status Undefined = Refused"
| "reads_status Null = Refused"
| "reads_status (Bool b) = Refused"
| "reads_status NaN = Refused"
| "reads_status (Obj kvs) = Refused"

text \<open>What Node throws for the status; the handlers of src read its \<open>code\<close> only.\<close>

definition invalid_status_code :: "jsval \<Rightarrow> obj" where
  "invalid_status_code c = [(''code'', Str ''ERR_HTTP_INVALID_STATUS_CODE'')]"

text \<open>
  A handler ends by calling \<open>response.status(c).send(b)\<close> or by calling \<open>next(err)\<close>.
\<close>

datatype signal = Send response | Next obj

type_synonym 's handler = "request \<Rightarrow> 's \<Rightarrow> signal \<times> 's"

datatype seg = Lit string | Param string

datatype pattern = Segs "seg list" | Wildcard

fun match_segs :: "seg list \<Rightarrow> string list \<Rightarrow> obj option" where
  "match_segs [] [] = Some []"
| "match_segs (Lit l # ps) (x # xs) = (if l = x then match_segs ps xs else None)"
| "match_segs (Param n # ps) (x # xs) =
     (if x = [] then None
      else (case match_segs ps xs of None \<Rightarrow> None | Some bound \<Rightarrow> Some ((n, Str x) # bound)))"
| "match_segs ps xs = None"

fun match_path :: "pattern \<Rightarrow> string list \<Rightarrow> obj option" where
  "match_path Wildcard xs = Some []"
| "match_path (Segs ps) xs = match_segs ps xs"

text \<open>\<open>app.get\<close>, \<open>app.post\<close> and \<open>app.all\<close>; a \<open>get\<close> route also answers HEAD.\<close>

datatype routeverb = Get | Post | All

fun handles_method :: "routeverb \<Rightarrow> verb \<Rightarrow> bool" where
  "handles_method Get v = (v = GET \<or> v = HEAD)"
| "handles_method Post v = (v = POST)"
| "handles_method All v = True"

text \<open>
  The application is the ordered list of what was registered on it: routes, and error
  middleware (the four-argument functions). An error middleware calls
  \<open>response.status(c).send(b)\<close> (\<open>Some\<close>) or \<open>next(err)\<close> (\<open>None\<close>).
\<close>

datatype 's layer =
    Route routeverb pattern "'s handler"
  | ErrorMiddleware "obj \<Rightarrow> response option"

text \<open>
  How a request ends: the call \<open>response.status(c).send(b)\<close> went through, with the
  status as Node writes it (what HTTP then leaves out of the body, for a HEAD request
  or a status without body, is not repeated here); or a failure passed every error middleware and reached the
  framework's default error handler; or no layer took the request. \<open>Undecided r o\<close> is
  the end for a status left unread: \<open>Responded r\<close> if the status reads as a number from
  100 to 999, and \<open>o\<close> otherwise.
\<close>

datatype outcome =
    Responded response
  | Unclassified obj
  | NoRoute
  | Undecided response outcome

text \<open>
  The end of a call \<open>response.status(c).send(b)\<close>, given what follows when it throws.
\<close>

definition deliver :: "response \<Rightarrow> outcome \<Rightarrow> outcome" where
  "deliver r thrown =
     (case reads_status (status r) of
        Taken code \<Rightarrow> Responded (r\<lparr>status := Num code\<rparr>)
      | Refused \<Rightarrow> thrown
      | Unread \<Rightarrow> Undecided r thrown)"

text \<open>
  After \<open>next(err)\<close>: the remaining layers in order, routes skipped. Express catches
  what a layer throws and passes it to \<open>next\<close>.
\<close>

fun handle_error :: "'s layer list \<Rightarrow> obj \<Rightarrow> outcome" where
  "handle_error [] err = Unclassified err"
| "handle_error (Route v p h # ls) err = handle_error ls err"
| "handle_error (ErrorMiddleware f # ls) err =
     (case f err of
        Some r \<Rightarrow> deliver r (handle_error ls (invalid_status_code (status r)))
      | None \<Rightarrow> handle_error ls err)"

text \<open>
  Without an error: the layers in order, error middleware skipped, first match wins.
  What the call of a handler throws reaches \<open>next\<close> as well: the handlers of src send
  inside a promise whose rejection they pass to \<open>next\<close>, and Express catches the rest.
\<close>

fun handle :: "'s layer list \<Rightarrow> request \<Rightarrow> 's \<Rightarrow> outcome \<times> 's" where
  "handle [] req s = (NoRoute, s)"
| "handle (ErrorMiddleware f # ls) req s = handle ls req s"
| "handle (Route v p h # ls) req s =
     (if handles_method v (http_method req)
      then (case match_path p (path req) of
              None \<Rightarrow> handle ls req s
            | Some bound \<Rightarrow>
                (case h (req\<lparr>params := bound\<rparr>) s of
                   (Send r, s') \<Rightarrow>
                     (deliver r (handle_error ls (invalid_status_code (status r))), s')
                 | (Next err, s') \<Rightarrow> (handle_error ls err, s')))
      else handle ls req s)"

section \<open>Error controllers (src/controllers/error.controllers.js)\<close>

definition badUrlHandling :: "'s handler" where
  "badUrlHandling request s =
     (Send \<lparr>status = Num 404, sent = Obj [(''msg'', Str ''Invalid URL'')]\<rparr>, s)"

definition customErrorMiddleware :: "obj \<Rightarrow> response option" where
  "customErrorMiddleware err =
     (let status = property err ''status''; msg = property err ''msg''
      in if truthy status \<and> truthy msg
         then Some \<lparr>status = status, sent = Obj [(''msg'', msg)]\<rparr>
         else None)"

definition handlePsqlErrorsMiddleware :: "obj \<Rightarrow> response option" where
  "handlePsqlErrorsMiddleware err =
     (if property err ''code'' = Str ''22P02''
      then Some \<lparr>status = Num 400, sent = Obj [(''msg'', Str ''Invalid input'')]\<rparr>
      else None)"

section \<open>Article controllers (src/unnamed/part_000, lines 1 to 87)\<close>

text \<open>
  The functions required from \<open>../models/articles.models.js\<close>. Each returns a promise:
  run against the store it rejects with a failure object (\<open>Inl\<close>) or resolves with a
  value (\<open>Inr\<close>), and leaves the store in a new state.
\<close>

type_synonym 's promise = "'s \<Rightarrow> (obj + jsval) \<times> 's"

record 's models =
  fetchAllArticles :: "jsval \<Rightarrow> jsval \<Rightarrow> jsval \<Rightarrow> 's promise"
  fetchArticlesById :: "jsval \<Rightarrow> 's promise"
  fetchCommentsByArticleId :: "jsval \<Rightarrow> 's promise"
  insertCommentByArticleId :: "jsval \<Rightarrow> jsval \<Rightarrow> jsval \<Rightarrow> 's promise"
  updateArticleById :: "jsval \<Rightarrow> jsval \<Rightarrow> 's promise"
  deletingCommentFromDb :: "jsval \<Rightarrow> 's promise"

definition getAllArticles :: "'s models \<Rightarrow> 's handler" where
  "getAllArticles M request s =
     (let topic = property (query request) ''topic'';
          sortBy = property (query request) ''sort_by'';
          sortOrder = property (query request) ''order''
      in case fetchAllArticles M topic sortBy sortOrder s of
           (Inr articles, s') \<Rightarrow>
             (Send \<lparr>status = Num 200, sent = Obj [(''articles'', articles)]\<rparr>, s')
         | (Inl err, s') \<Rightarrow> (Next err, s'))"

definition getArticlesById :: "'s models \<Rightarrow> 's handler" where
  "getArticlesById M request s =
     (let article_id = property (params request) ''article_id''
      in case fetchArticlesById M article_id s of
           (Inr article, s') \<Rightarrow>
             (Send \<lparr>status = Num 200, sent = Obj [(''article'', article)]\<rparr>, s')
         | (Inl err, s') \<Rightarrow> (Next err, s'))"

definition getCommentsByArticleId :: "'s models \<Rightarrow> 's handler" where
  "getCommentsByArticleId M request s =
     (let article_id = property (params request) ''article_id''
      in case fetchArticlesById M article_id s of
           (Inr article, s') \<Rightarrow>
             (case fetchCommentsByArticleId M article_id s' of
                (Inr comments, s'') \<Rightarrow>
                  (Send \<lparr>status = Num 200, sent = Obj [(''comments'', comments)]\<rparr>, s'')
              | (Inl err, s'') \<Rightarrow> (Next err, s''))
         | (Inl err, s') \<Rightarrow> (Next err, s'))"

definition postCommentByArticleId :: "'s models \<Rightarrow> 's handler" where
  "postCommentByArticleId M request s =
     (let article_id = property (params request) ''article_id'';
          (body, username) =
            (property (body request) ''body'', property (body request) ''username'')
      in case insertCommentByArticleId M article_id body username s of
           (Inr comment, s') \<Rightarrow>
             (Send \<lparr>status = Num 201, sent = Obj [(''comment'', comment)]\<rparr>, s')
         | (Inl err, s') \<Rightarrow> (Next err, s'))"

definition patchArticleById :: "'s models \<Rightarrow> 's handler" where
  "patchArticleById M request s =
     (let article_id = property (params request) ''article_id'';
          inc_votes = property (body request) ''inc_votes''
      in case updateArticleById M article_id inc_votes s of
           (Inr article, s') \<Rightarrow>
             (Send \<lparr>status = Num 200, sent = Obj [(''article'', article)]\<rparr>, s')
         | (Inl err, s') \<Rightarrow> (Next err, s'))"

definition deleteCommentById :: "'s models \<Rightarrow> 's handler" where
  "deleteCommentById M request s =
     (let comment_id = property (params request) ''comment_id''
      in case deletingCommentFromDb M comment_id s of
           (Inr u, s') \<Rightarrow> (Send \<lparr>status = Num 204, sent = Undefined\<rparr>, s')
         | (Inl err, s') \<Rightarrow> (Next err, s'))"

section \<open>The application (src/app.js)\<close>

text \<open>
  The layers in the order of lines 18 to 27. \<open>getTopics\<close> comes from
  \<open>./controllers/topics.controllers.js\<close> and is a parameter here.
\<close>

definition app :: "'s handler \<Rightarrow> 's models \<Rightarrow> 's layer list" where
  "app getTopics M =
     [Route Get (Segs [Lit ''api'', Lit ''topics'']) getTopics,
      Route Get (Segs [Lit ''api'', Lit ''articles'']) (getAllArticles M),
      Route Get (Segs [Lit ''api'', Lit ''articles'', Param ''article_id'']) (getArticlesById M),
      Route Get (Segs [Lit ''api'', Lit ''articles'', Param ''article_id'', Lit ''comments''])
        (getCommentsByArticleId M),
      Route Post (Segs [Lit ''api'', Lit ''articles'', Param ''article_id'', Lit ''comments''])
        (postCommentByArticleId M),
      ErrorMiddleware customErrorMiddleware,
      ErrorMiddleware handlePsqlErrorsMiddleware,
      Route All Wildcard badUrlHandling]"

text \<open>
  What becomes of a failure that a route passes to \<open>next\<close>: the layers registered after
  the routes (src/app.js lines 24 to 27).
\<close>

definition error_normalizer :: "obj \<Rightarrow> outcome" where
  "error_normalizer err =
     handle_error [ErrorMiddleware customErrorMiddleware,
                   ErrorMiddleware handlePsqlErrorsMiddleware,
                   Route All Wildcard (badUrlHandling :: unit handler)] err"

section \<open>An earlier getArticlesById (src/unnamed/part_000, lines 88 to 107)\<close>

text \<open>
  This version calls \<open>next(err)\<close> when \<open>isNaN(article_id)\<close> and then goes on, since
  nothing returns: the lookup runs all the same and signals a second time. The result is
  the list of its signals in order. \<open>isNaN\<close> is JavaScript's own function and a parameter
  here.
\<close>

definition getArticlesById_isNaN ::
  "(jsval \<Rightarrow> bool) \<Rightarrow> 's models \<Rightarrow> request \<Rightarrow> 's \<Rightarrow> signal list \<times> 's" where
  "getArticlesById_isNaN isNaN M request s =
     (let article_id = property (params request) ''article_id'';
          early = (if isNaN article_id
                   then [Next [(''status'', Num 400),
                               (''msg'', Str ''Article ID invalid - must be a number'')]]
                   else [])
      in case fetchArticlesById M article_id s of
           (Inr article, s') \<Rightarrow>
             (early @ [Send \<lparr>status = Num 200, sent = Obj [(''article'', article)]\<rparr>], s')
         | (Inl err, s') \<Rightarrow> (early @ [Next err], s'))"

section \<open>The data store and the models\<close>

text \<open>
  Modelled from the spec: src/ holds neither \<open>models/articles.models.js\<close> nor the
  database. What follows is the store of section 3 (rows of articles, comments, users and
  topics), its failures as section 6 and the glossary describe them (a structured failure
  with the store's own code, raised by the store for a type mismatch, a value out of
  range or a broken reference), and the six model functions as sections 4.1 to 4.5
  describe them, with their local checks before the store (section 7). The codes are
  PostgreSQL's: 22P02 is the one src/controllers/error.controllers.js tests for (a
  type mismatch), 22003 is a numeric value out of range,
  23503 a foreign-key violation, 23502 a null in a required column, 42601 a statement
  the store cannot parse. The store keeps the list of the statements it has executed.
\<close>

datatype statement =
    SelectArticles jsval string jsval
  | SelectArticle jsval
  | SelectComments jsval
  | InsertComment jsval jsval jsval
  | UpdateVotes jsval jsval
  | DeleteComment jsval

record store =
  articles :: "obj list"
  comments :: "obj list"
  users :: "obj list"
  topics :: "obj list"
  serial :: int
  clock :: int
  executed :: "statement list"

definition execute :: "statement \<Rightarrow> store \<Rightarrow> store" where
  "execute q s = s\<lparr>executed := executed s @ [q]\<rparr>"

subsection \<open>Shaped application errors (sections 4.1, 4.3 and 4.5 of the spec)\<close>

text \<open>
  Modelled from the spec: the failures that the absent models construct themselves,
  each with its status and its message (sections 4.1, 4.3, 4.5 and 7).
\<close>

definition not_found_article :: obj where
  "not_found_article = [(''status'', Num 404), (''msg'', Str ''Article ID does not exist'')]"

definition not_found_comment :: obj where
  "not_found_comment = [(''status'', Num 404), (''msg'', Str ''Comment does not exist'')]"

definition malformed_body :: obj where
  "malformed_body =
     [(''status'', Num 400), (''msg'', Str ''Malformed body/missing required fields'')]"

definition invalid_sort_column :: obj where
  "invalid_sort_column = [(''status'', Num 400), (''msg'', Str ''Invalid sort by query'')]"

definition invalid_input :: obj where
  "invalid_input = [(''status'', Num 400), (''msg'', Str ''Invalid input'')]"

subsection \<open>Failures raised by the store\<close>

text \<open>
  Modelled from the spec: the structured failure of the absent store (section 6), an
  object with the store's code and, for a broken reference, the store's own sentence
  naming the column and the table (section 4.4).
\<close>

definition store_failure :: "string \<Rightarrow> obj" where
  "store_failure code = [(''code'', Str code)]"

definition foreign_key_violation :: "string \<Rightarrow> string \<Rightarrow> string \<Rightarrow> obj" where
  \<open>foreign_key_violation column val table =
     [(''code'', Str ''23503''),
      (''detail'', Str (''Key ('' @ column @ '')=('' @ val @ '') is not present in table "''
                        @ table @ ''".''))]\<close>

subsection \<open>Numbers as text\<close>

text \<open>
  Modelled from the spec: how the absent store reads an identifier token and writes a
  number into a message.
\<close>

definition is_digit :: "char \<Rightarrow> bool" where
  "is_digit c = (48 \<le> (of_char c :: nat) \<and> (of_char c :: nat) \<le> 57)"

text \<open>
  Modelled from the spec: the Validator of section 4.1 for an identifier token, a pure
  decision: the token is a non-empty string of digits.
\<close>

definition valid_identifier :: "jsval \<Rightarrow> bool" where
  "valid_identifier token =
     (case token of Str cs \<Rightarrow> cs \<noteq> [] \<and> list_all is_digit cs | _ \<Rightarrow> False)"

definition decimal :: "string \<Rightarrow> int" where
  "decimal cs = foldl (\<lambda>n c. 10 * n + (int (of_char c) - 48)) 0 cs"

fun show_nat :: "nat \<Rightarrow> string" where
  "show_nat n =
     (if n < 10 then [''0123456789'' ! n]
      else show_nat (n div 10) @ [''0123456789'' ! (n mod 10)])"

definition show_int :: "int \<Rightarrow> string" where
  "show_int i = (if i < 0 then CHR ''-'' # show_nat (nat (- i)) else show_nat (nat i))"

text \<open>
  Modelled from the spec: the store's integer type has 32 bits. A non-empty string of
  digits or a number is an integer for the store, out of range when beyond the type
  (section 4.3); anything else is a type mismatch (glossary).
\<close>

definition store_integer :: "jsval \<Rightarrow> obj + int" where
  "store_integer v =
     (case v of
        Str cs \<Rightarrow>
          (if cs \<noteq> [] \<and> list_all is_digit cs
           then (if decimal cs \<le> 2147483647 then Inr (decimal cs)
                 else Inl (store_failure ''22003''))
           else Inl (store_failure ''22P02''))
      | Num n \<Rightarrow>
          (if - 2147483648 \<le> n \<and> n \<le> 2147483647 then Inr n
           else Inl (store_failure ''22003''))
      | _ \<Rightarrow> Inl (store_failure ''22P02''))"

text \<open>
  Modelled from the spec: a text column of the absent store takes a string, or a number
  written out; \<open>null\<close> is refused (the NOT NULL failure of section 4.5).
\<close>

definition store_text :: "jsval \<Rightarrow> obj + string" where
  "store_text v =
     (case v of
        Str cs \<Rightarrow> Inr cs
      | Num n \<Rightarrow> Inr (show_int n)
      | Bool b \<Rightarrow> Inr (if b then ''true'' else ''false'')
      | Null \<Rightarrow> Inl (store_failure ''23502'')
      | _ \<Rightarrow> Inl (store_failure ''22P02''))"

subsection \<open>Ordering rows\<close>

text \<open>
  Modelled from the spec: the ORDER BY of the absent store on one column (section 4.2),
  numbers by size and strings by their characters, ascending or descending; ties stay
  as they are.
\<close>

fun string_le :: "string \<Rightarrow> string \<Rightarrow> bool" where
  "string_le [] ys = True"
| "string_le (x # xs) [] = False"
| "string_le (x # xs) (y # ys) =
     (if x = y then string_le xs ys else (of_char x :: nat) < of_char y)"

fun value_le :: "jsval \<Rightarrow> jsval \<Rightarrow> bool" where
  "value_le (Num a) (Num b) = (a \<le> b)"
| "value_le (Str a) (Str b) = string_le a b"
| "value_le a b = True"

datatype direction = Asc | Desc

definition row_le :: "string \<Rightarrow> direction \<Rightarrow> obj \<Rightarrow> obj \<Rightarrow> bool" where
  "row_le column dir a b =
     (case dir of
        Asc \<Rightarrow> value_le (property a column) (property b column)
      | Desc \<Rightarrow> value_le (property b column) (property a column))"

fun insert_row :: "(obj \<Rightarrow> obj \<Rightarrow> bool) \<Rightarrow> obj \<Rightarrow> obj list \<Rightarrow> obj list" where
  "insert_row le r [] = [r]"
| "insert_row le r (x # xs) = (if le r x then r # x # xs else x # insert_row le r xs)"

definition order_by :: "string \<Rightarrow> direction \<Rightarrow> obj list \<Rightarrow> obj list" where
  "order_by column dir rows = foldr (insert_row (row_le column dir)) rows []"

subsection \<open>Reading articles (sections 4.1 and 4.2 of the spec)\<close>

text \<open>
  Modelled from the spec: the comment count of an article is computed from the comments
  of the store each time (section 3), and the sort columns are the fixed allow-list of
  section 4.1.
\<close>

definition comment_count :: "store \<Rightarrow> obj \<Rightarrow> jsval" where
  "comment_count s a =
     Num (int (length
       (filter (\<lambda>c. property c ''article_id'' = property a ''article_id'') (comments s))))"

definition with_comment_count :: "store \<Rightarrow> obj \<Rightarrow> obj" where
  "with_comment_count s a = a @ [(''comment_count'', comment_count s a)]"

definition sort_columns :: "string list" where
  "sort_columns =
     [''author'', ''title'', ''article_id'', ''topic'', ''created_at'', ''votes'',
      ''comment_count'']"

text \<open>
  Modelled from the spec: the Validator of section 4.1 for the sort key. An absent key
  is \<open>created_at\<close>, a key of the allow-list is itself, any other signals
  \<open>InvalidSortColumn\<close>.
\<close>

definition resolve_sort :: "jsval \<Rightarrow> obj + string" where
  "resolve_sort sortBy =
     (case sortBy of
        Undefined \<Rightarrow> Inr ''created_at''
      | Str c \<Rightarrow> (if c \<in> set sort_columns then Inr c else Inl invalid_sort_column)
      | _ \<Rightarrow> Inl invalid_sort_column)"

text \<open>
  Modelled from the spec: an absent order token is \<open>desc\<close>; the token is not checked
  here, the store reads it without regard to case and fails on any other word
  (section 4.1).
\<close>

definition default_order :: "jsval \<Rightarrow> jsval" where
  "default_order sortOrder = (if sortOrder = Undefined then Str ''desc'' else sortOrder)"

definition lower :: "char \<Rightarrow> char" where
  "lower c =
     (case map_of (zip ''ABCDEFGHIJKLMNOPQRSTUVWXYZ'' ''abcdefghijklmnopqrstuvwxyz'') c of
        None \<Rightarrow> c
      | Some l \<Rightarrow> l)"

definition store_direction :: "jsval \<Rightarrow> direction option" where
  "store_direction token =
     (case token of
        Str w \<Rightarrow>
          (if map lower w = ''asc'' then Some Asc
           else if map lower w = ''desc'' then Some Desc
           else None)
      | _ \<Rightarrow> None)"

text \<open>
  Modelled from the spec: the Query Composer of section 4.2. The topic predicate is
  applied only when a topic is supplied; every row carries its comment count.
\<close>

definition fetchAllArticles_spec :: "jsval \<Rightarrow> jsval \<Rightarrow> jsval \<Rightarrow> store promise" where
  "fetchAllArticles_spec topic sortBy sortOrder s =
     (case resolve_sort sortBy of
        Inl err \<Rightarrow> (Inl err, s)
      | Inr column \<Rightarrow>
          (let s' = execute (SelectArticles topic column (default_order sortOrder)) s
           in case store_direction (default_order sortOrder) of
                None \<Rightarrow> (Inl (store_failure ''42601''), s')
              | Some dir \<Rightarrow>
                  (let rows = map (with_comment_count s) (articles s);
                       kept = (if topic = Undefined then rows
                               else filter (\<lambda>a. property a ''topic'' = topic) rows)
                   in (Inr (Arr (map Obj (order_by column dir kept))), s'))))"

subsection \<open>The Existence Resolver (section 4.3 of the spec)\<close>

text \<open>
  Modelled from the spec: the lookup of one article. The Validator comes first and
  signals \<open>InvalidInput\<close> for an invalid identifier before any access to the store
  (sections 4.1 and 7); then the store looks the article up, and raises its failure
  for an identifier out of range; zero rows signal \<open>NotFound\<close>.
\<close>

definition fetchArticlesById_spec :: "jsval \<Rightarrow> store promise" where
  "fetchArticlesById_spec article_id s =
     (if valid_identifier article_id
      then (let s' = execute (SelectArticle article_id) s
            in case store_integer article_id of
                 Inl err \<Rightarrow> (Inl err, s')
               | Inr n \<Rightarrow>
                   (case filter (\<lambda>a. property a ''article_id'' = Num n) (articles s) of
                      [] \<Rightarrow> (Inl not_found_article, s')
                    | a # rest \<Rightarrow> (Inr (Obj (with_comment_count s a)), s')))
      else (Inl invalid_input, s))"

text \<open>
  Modelled from the spec: the comments of one article, newest first (src/endpoints.json),
  after the Validator; no comment is no failure.
\<close>

definition fetchCommentsByArticleId_spec :: "jsval \<Rightarrow> store promise" where
  "fetchCommentsByArticleId_spec article_id s =
     (if valid_identifier article_id
      then (let s' = execute (SelectComments article_id) s
            in case store_integer article_id of
                 Inl err \<Rightarrow> (Inl err, s')
               | Inr n \<Rightarrow>
                   (Inr (Arr (map Obj (order_by ''created_at'' Desc
                       (filter (\<lambda>c. property c ''article_id'' = Num n) (comments s))))),
                    s'))
      else (Inl invalid_input, s))"

subsection \<open>The Mutation Handlers (section 4.5 of the spec)\<close>

text \<open>
  Modelled from the spec: inserting a comment. The check for the two required fields
  and the Validator are local and come before the store; the store then checks the
  range of the identifier and the two references.
\<close>

definition insertCommentByArticleId_spec :: "jsval \<Rightarrow> jsval \<Rightarrow> jsval \<Rightarrow> store promise" where
  "insertCommentByArticleId_spec article_id comment_body username s =
     (if comment_body = Undefined \<or> username = Undefined then (Inl malformed_body, s)
      else if valid_identifier article_id then
        (let s' = execute (InsertComment article_id comment_body username) s
         in case store_integer article_id of
              Inl err \<Rightarrow> (Inl err, s')
            | Inr n \<Rightarrow>
                (case store_text username of
                   Inl err \<Rightarrow> (Inl err, s')
                 | Inr name \<Rightarrow>
                     (case store_text comment_body of
                        Inl err \<Rightarrow> (Inl err, s')
                      | Inr words \<Rightarrow>
                          (if filter (\<lambda>u. property u ''username'' = Str name) (users s) = []
                           then (Inl (foreign_key_violation ''author'' name ''users''), s')
                           else if filter (\<lambda>a. property a ''article_id'' = Num n)
                                     (articles s) = []
                           then (Inl (foreign_key_violation ''article_id'' (show_int n)
                                        ''articles''), s')
                           else
                             (let row = [(''comment_id'', Num (serial s)),
                                         (''body'', Str words),
                                         (''article_id'', Num n),
                                         (''author'', Str name),
                                         (''votes'', Num 0),
                                         (''created_at'', Num (clock s))]
                              in (Inr (Obj row),
                                  s'\<lparr>comments := comments s @ [row],
                                     serial := serial s + 1,
                                     clock := clock s + 1\<rparr>))))))
      else (Inl invalid_input, s))"

text \<open>
  Modelled from the spec: the vote increment, one update in the store, after the local
  checks; an absent delta is a malformed body, a delta that is no integer is the
  store's failure, zero rows updated signal \<open>NotFound\<close>.
\<close>

definition add_votes :: "int \<Rightarrow> obj \<Rightarrow> obj" where
  "add_votes delta a =
     map (\<lambda>(k, v). if k = ''votes''
                    then (k, (case v of Num n \<Rightarrow> Num (n + delta) | _ \<Rightarrow> v))
                    else (k, v)) a"

definition updateArticleById_spec :: "jsval \<Rightarrow> jsval \<Rightarrow> store promise" where
  "updateArticleById_spec article_id inc_votes s =
     (if inc_votes = Undefined then (Inl malformed_body, s)
      else if valid_identifier article_id then
        (let s' = execute (UpdateVotes article_id inc_votes) s
         in case store_integer inc_votes of
              Inl err \<Rightarrow> (Inl err, s')
            | Inr delta \<Rightarrow>
                (case store_integer article_id of
                   Inl err \<Rightarrow> (Inl err, s')
                 | Inr n \<Rightarrow>
                     (case filter (\<lambda>a. property a ''article_id'' = Num n) (articles s) of
                        [] \<Rightarrow> (Inl not_found_article, s')
                      | a # rest \<Rightarrow>
                          (Inr (Obj (add_votes delta a)),
                           s'\<lparr>articles :=
                                 map (\<lambda>r. if property r ''article_id'' = Num n
                                          then add_votes delta r else r) (articles s)\<rparr>))))
      else (Inl invalid_input, s))"

text \<open>
  Modelled from the spec: a hard delete by id, after the Validator; zero rows deleted
  signal \<open>NotFound\<close>, success resolves with nothing.
\<close>

definition deletingCommentFromDb_spec :: "jsval \<Rightarrow> store promise" where
  "deletingCommentFromDb_spec comment_id s =
     (if valid_identifier comment_id
      then (let s' = execute (DeleteComment comment_id) s
            in case store_integer comment_id of
                 Inl err \<Rightarrow> (Inl err, s')
               | Inr n \<Rightarrow>
                   (if filter (\<lambda>c. property c ''comment_id'' = Num n) (comments s) = []
                    then (Inl not_found_comment, s')
                    else (Inr Undefined,
                          s'\<lparr>comments :=
                                filter (\<lambda>c. property c ''comment_id'' \<noteq> Num n)
                                  (comments s)\<rparr>)))
      else (Inl invalid_input, s))"

text \<open>
  Modelled from the spec: the six functions together, in the place of the absent
  \<open>models/articles.models.js\<close>.
\<close>

definition spec_models :: "store models" where
  "spec_models =
     \<lparr>fetchAllArticles = fetchAllArticles_spec,
      fetchArticlesById = fetchArticlesById_spec,
      fetchCommentsByArticleId = fetchCommentsByArticleId_spec,
      insertCommentByArticleId = insertCommentByArticleId_spec,
      updateArticleById = updateArticleById_spec,
      deletingCommentFromDb = deletingCommentFromDb_spec\<rparr>"

text \<open>
  Modelled from the spec: \<open>./controllers/topics.controllers.js\<close> is not under src/; the
  handler answers 200 with the Topic rows of section 3, as the test of
  src/__tests__/app.test.js (lines 31 to 50) expects.
\<close>

definition getTopics_spec :: "store handler" where
  "getTopics_spec request s =
     (Send \<lparr>status = Num 200, sent = Obj [(''topics'', Arr (map Obj (topics s)))]\<rparr>, s)"

subsection \<open>A small store\<close>

text \<open>
  Modelled from the spec: a store to run the application on, with rows of the shape of
  section 3 (the database and its data are not under src/).
\<close>

definition store0 :: store where
  "store0 =
     \<lparr>articles =
        [[(''article_id'', Num 1), (''title'', Str ''Living in the shadow''),
          (''topic'', Str ''mitch''), (''author'', Str ''butter_bridge''),
          (''created_at'', Num 1594329060), (''votes'', Num 100)],
         [(''article_id'', Num 2), (''title'', Str ''Sony Vaio''),
          (''topic'', Str ''mitch''), (''author'', Str ''icellusedkars''),
          (''created_at'', Num 1602828180), (''votes'', Num 0)],
         [(''article_id'', Num 5), (''title'', Str ''UNCOVERED''),
          (''topic'', Str ''cats''), (''author'', Str ''rogersop''),
          (''created_at'', Num 1596464040), (''votes'', Num 0)]],
      comments =
        [[(''comment_id'', Num 1), (''body'', Str ''Oh, I have got compassion''),
          (''article_id'', Num 1), (''author'', Str ''butter_bridge''),
          (''votes'', Num 16), (''created_at'', Num 1586179020)],
         [(''comment_id'', Num 2), (''body'', Str ''What do you see?''),
          (''article_id'', Num 5), (''author'', Str ''icellusedkars''),
          (''votes'', Num 14), (''created_at'', Num 1604113380)]],
      users =
        [[(''username'', Str ''butter_bridge'')], [(''username'', Str ''icellusedkars'')],
         [(''username'', Str ''rogersop'')]],
      topics =
        [[(''slug'', Str ''mitch''), (''description'', Str ''The man, the Mitch'')],
         [(''slug'', Str ''cats''), (''description'', Str ''Not dogs'')]],
      serial = 3,
      clock = 1700000000,
      executed = []\<rparr>"

section \<open>The HTTP layer\<close>

lemma int32_in_range: "- 2147483648 \<le> n \<Longrightarrow> n < 2147483648 \<Longrightarrow> int32 n = n"
  by (simp add: int32_def)

text \<open>A status from 100 to 999 is taken as it is.\<close>

lemma deliver_taken [simp]:
  "100 \<le> n \<Longrightarrow> n \<le> 999 \<Longrightarrow>
   deliver \<lparr>status = Num n, sent = b\<rparr> thrown = Responded \<lparr>status = Num n, sent = b\<rparr>"
  by (simp add: deliver_def int32_in_range)

section \<open>The error normalizer\<close>

text \<open>Every route of the application hands its failures to the same two stages.\<close>

lemma handle_error_app: "handle_error (app getTopics M) err = error_normalizer err"
  by (simp add: app_def error_normalizer_def split: option.split)

text \<open>What Node throws for a status is recognised by neither stage.\<close>

lemma invalid_status_code_unclassified:
  "error_normalizer (invalid_status_code c) = Unclassified (invalid_status_code c)"
  by (simp add: error_normalizer_def customErrorMiddleware_def
      handlePsqlErrorsMiddleware_def Let_def invalid_status_code_def property_def)

text \<open>
  The two stages in one: for a failure with both fields truthy the first stage makes
  the call, which ends as the HTTP layer reads the status; otherwise the second stage
  answers for the code 22P02, and any other failure leaves the chain.
\<close>

lemma error_normalizer_eq:
  "error_normalizer err =
     (if truthy (property err ''status'') \<and> truthy (property err ''msg'')
      then deliver \<lparr>status = property err ''status'',
                    sent = Obj [(''msg'', property err ''msg'')]\<rparr>
             (Unclassified (invalid_status_code (property err ''status'')))
      else if property err ''code'' = Str ''22P02''
      then Responded \<lparr>status = Num 400, sent = Obj [(''msg'', Str ''Invalid input'')]\<rparr>
      else Unclassified err)"
  by (simp add: error_normalizer_def customErrorMiddleware_def
      handlePsqlErrorsMiddleware_def Let_def invalid_status_code_def property_def)

text \<open>
  C7. A failure that carries an explicit status and message, that is an error status
  (from 400 to 599) and a message that is a non-empty string, as every shaped
  application error has them: the first stage emits exactly that status and that
  message, whatever the \<open>code\<close> of the failure, so it is asked before the store-error
  classifier. A failure without one of the two fields is passed on, and the answer is
  the one of the store-error classifier.
\<close>

theorem shaped_error_emitted_by_first_stage:
  "(property err ''status'' = Num n \<and> 400 \<le> n \<and> n \<le> 599
      \<and> property err ''msg'' = Str m \<and> m \<noteq> [] \<longrightarrow>
      customErrorMiddleware err = Some \<lparr>status = Num n, sent = Obj [(''msg'', Str m)]\<rparr>
      \<and> handle_error (app getTopics M) err
        = Responded \<lparr>status = Num n, sent = Obj [(''msg'', Str m)]\<rparr>)
   \<and> (map_of err ''status'' = None \<or> map_of err ''msg'' = None \<longrightarrow>
      customErrorMiddleware err = None
      \<and> handle_error (app getTopics M) err
        = (case handlePsqlErrorsMiddleware err of
             Some r \<Rightarrow> Responded r
           | None \<Rightarrow> Unclassified err))"
proof (intro conjI impI)
  assume h: "property err ''status'' = Num n \<and> 400 \<le> n \<and> n \<le> 599
      \<and> property err ''msg'' = Str m \<and> m \<noteq> []"
  then show "customErrorMiddleware err = Some \<lparr>status = Num n, sent = Obj [(''msg'', Str m)]\<rparr>"
    by (simp add: customErrorMiddleware_def)
  from h show "handle_error (app getTopics M) err
        = Responded \<lparr>status = Num n, sent = Obj [(''msg'', Str m)]\<rparr>"
    by (simp add: handle_error_app error_normalizer_eq)
next
  assume h: "map_of err ''status'' = None \<or> map_of err ''msg'' = None"
  then show "customErrorMiddleware err = None"
    by (auto simp add: customErrorMiddleware_def property_def)
  from h show "handle_error (app getTopics M) err
        = (case handlePsqlErrorsMiddleware err of
             Some r \<Rightarrow> Responded r
           | None \<Rightarrow> Unclassified err)"
    by (auto simp add: handle_error_app error_normalizer_eq handlePsqlErrorsMiddleware_def
        property_def)
qed

text \<open>
  The theorem at two failures: a shaped one that also carries the store's code 22P02
  (the first stage wins), and one without \<open>msg\<close> (passed on, and the second stage
  answers).
\<close>

theorem shaped_error_emitted_by_first_stage_witness:
  "handle_error (app getTopics_spec spec_models)
     [(''status'', Num 404), (''msg'', Str ''Article ID does not exist''),
      (''code'', Str ''22P02'')]
   = Responded \<lparr>status = Num 404, sent = Obj [(''msg'', Str ''Article ID does not exist'')]\<rparr>
   \<and> customErrorMiddleware [(''status'', Num 404), (''code'', Str ''22P02'')] = None
   \<and> handle_error (app getTopics_spec spec_models)
        [(''status'', Num 404), (''code'', Str ''22P02'')]
      = Responded \<lparr>status = Num 400, sent = Obj [(''msg'', Str ''Invalid input'')]\<rparr>"
  using shaped_error_emitted_by_first_stage
          [where err = "[(''status'', Num 404), (''msg'', Str ''Article ID does not exist''),
                (''code'', Str ''22P02'')]" and n = 404 and m = "''Article ID does not exist''"
             and getTopics = getTopics_spec and M = spec_models]
        shaped_error_emitted_by_first_stage
          [where err = "[(''status'', Num 404), (''code'', Str ''22P02'')]"
             and getTopics = getTopics_spec and M = spec_models]
  by (simp add: property_def handlePsqlErrorsMiddleware_def)

text \<open>
  C10. The first stage wants both fields truthy, not merely present: a failure with
  status 0, with the empty string as \<open>msg\<close>, or without one of the two fields is not
  emitted by it; the store-error classifier then answers 400 when the code is 22P02, and
  otherwise the failure leaves the chain unclassified.
\<close>

theorem first_stage_requires_truthy_fields:
  assumes "property err ''status'' = Num 0 \<or> property err ''msg'' = Str ''''
           \<or> map_of err ''status'' = None \<or> map_of err ''msg'' = None"
  shows "customErrorMiddleware err = None
         \<and> handle_error (app getTopics M) err
           = (if property err ''code'' = Str ''22P02''
              then Responded \<lparr>status = Num 400, sent = Obj [(''msg'', Str ''Invalid input'')]\<rparr>
              else Unclassified err)"
  using assms
  by (auto simp add: handle_error_app error_normalizer_eq customErrorMiddleware_def Let_def
      property_def)

text \<open>The theorem at one failure of each of the four kinds.\<close>

theorem first_stage_requires_truthy_fields_witness:
  "handle_error (app getTopics_spec spec_models) [(''status'', Num 0), (''msg'', Str ''gone'')]
     = Unclassified [(''status'', Num 0), (''msg'', Str ''gone'')]
   \<and> handle_error (app getTopics_spec spec_models)
        [(''status'', Num 404), (''msg'', Str ''''), (''code'', Str ''22P02'')]
     = Responded \<lparr>status = Num 400, sent = Obj [(''msg'', Str ''Invalid input'')]\<rparr>
   \<and> handle_error (app getTopics_spec spec_models) [(''msg'', Str ''gone'')]
     = Unclassified [(''msg'', Str ''gone'')]
   \<and> customErrorMiddleware [(''status'', Num 404)] = None"
  using first_stage_requires_truthy_fields
          [of "[(''status'', Num 0), (''msg'', Str ''gone'')]" getTopics_spec spec_models]
        first_stage_requires_truthy_fields
          [of "[(''status'', Num 404), (''msg'', Str ''''), (''code'', Str ''22P02'')]"
              getTopics_spec spec_models]
        first_stage_requires_truthy_fields
          [of "[(''msg'', Str ''gone'')]" getTopics_spec spec_models]
        first_stage_requires_truthy_fields
          [of "[(''status'', Num 404)]" getTopics_spec spec_models]
  by (simp add: property_def)

text \<open>
  C2, at the failure the store raises for a comment whose author is no user: neither
  stage recognises the code 23503, so the failure leaves the chain unclassified and the
  store's message is not sent with status 404.
\<close>

theorem foreign_key_violation_unclassified:
  \<open>error_normalizer
     [(''code'', Str ''23503''),
      (''detail'', Str ''Key (author)=(5) is not present in table "users".'')]
   = Unclassified
       [(''code'', Str ''23503''),
        (''detail'', Str ''Key (author)=(5) is not present in table "users".'')]
   \<and> handle_error (app getTopics M)
       [(''code'', Str ''23503''),
        (''detail'', Str ''Key (author)=(5) is not present in table "users".'')]
     = Unclassified
         [(''code'', Str ''23503''),
          (''detail'', Str ''Key (author)=(5) is not present in table "users".'')]\<close>
  by (simp add: handle_error_app error_normalizer_eq property_def)

text \<open>
  C3, at the failure the store raises for the identifier 9332879283: neither stage
  recognises the code 22003, so no status 400 with an out-of-range message is sent.
\<close>

theorem out_of_range_unclassified:
  "error_normalizer [(''code'', Str ''22003'')] = Unclassified [(''code'', Str ''22003'')]
   \<and> handle_error (app getTopics M) [(''code'', Str ''22003'')]
     = Unclassified [(''code'', Str ''22003'')]"
  by (simp add: handle_error_app error_normalizer_eq property_def)

section \<open>Routing\<close>

text \<open>No PATCH and no DELETE request reaches a handler other than the last, whatever its path.\<close>

lemma patch_and_delete_never_routed:
  "http_method req = PATCH \<or> http_method req = DELETE \<Longrightarrow>
   handle (app getTopics M) req s
   = (Responded \<lparr>status = Num 404, sent = Obj [(''msg'', Str ''Invalid URL'')]\<rparr>, s)"
  by (auto simp add: app_def badUrlHandling_def)

text \<open>
  C1, at the two requests of the tests (src/__tests__/app.test.js lines 162 to 183 and
  484 to 486): src/app.js registers no PATCH and no DELETE route, so both requests fall
  through to the wildcard route and are answered 404 with \<open>Invalid URL\<close>, whatever the
  models and the store.
\<close>

theorem patch_and_delete_not_routed:
  "handle (app getTopics M)
     \<lparr>http_method = PATCH, path = [''api'', ''articles'', ''5''], query = [],
      body = [(''inc_votes'', Num (- 100))], params = []\<rparr> s
   = (Responded \<lparr>status = Num 404, sent = Obj [(''msg'', Str ''Invalid URL'')]\<rparr>, s)
   \<and> handle (app getTopics M)
       \<lparr>http_method = DELETE, path = [''api'', ''comments'', ''5''], query = [], body = [],
        params = []\<rparr> s
     = (Responded \<lparr>status = Num 404, sent = Obj [(''msg'', Str ''Invalid URL'')]\<rparr>, s)"
  by (simp add: app_def badUrlHandling_def)

text \<open>
  C5, at two requests with a non-numeric identifier (src/__tests__/app.test.js lines 256
  to 267 and 487 to 494): the routes that would take them are not registered, and the
  answer is 404 with \<open>Invalid URL\<close>, not 400 with \<open>Invalid input\<close>.
\<close>

theorem non_numeric_identifier_not_routed:
  "handle (app getTopics M)
     \<lparr>http_method = DELETE, path = [''api'', ''comments'', ''pineapple''], query = [], body = [],
      params = []\<rparr> s
   = (Responded \<lparr>status = Num 404, sent = Obj [(''msg'', Str ''Invalid URL'')]\<rparr>, s)
   \<and> handle (app getTopics M)
       \<lparr>http_method = PATCH, path = [''api'', ''articles'', ''pineapple''], query = [],
        body = [(''inc_votes'', Num 1)], params = []\<rparr> s
     = (Responded \<lparr>status = Num 404, sent = Obj [(''msg'', Str ''Invalid URL'')]\<rparr>, s)"
  by (simp add: app_def badUrlHandling_def)

section \<open>The registered routes\<close>

text \<open>What the application does with a request for each of the routes of src/app.js.\<close>

lemma handle_error_tail:
  "handle_error
     [ErrorMiddleware customErrorMiddleware, ErrorMiddleware handlePsqlErrorsMiddleware,
      Route All Wildcard h] err
   = error_normalizer err"
  by (simp add: error_normalizer_def split: option.split)

lemma handle_get_articles:
  "handle (app getTopics M)
     \<lparr>http_method = GET, path = [''api'', ''articles''], query = q, body = b, params = p\<rparr> s
   = (case getAllArticles M
            \<lparr>http_method = GET, path = [''api'', ''articles''], query = q, body = b,
             params = []\<rparr> s of
        (Send r, s') \<Rightarrow>
          (deliver r (Unclassified (invalid_status_code (status r))), s')
      | (Next err, s') \<Rightarrow> (error_normalizer err, s'))"
  by (simp add: app_def handle_error_tail invalid_status_code_unclassified
      del: handle_error.simps(3)
      split: prod.split signal.split)


lemma handle_get_comments:
  "aid \<noteq> [] \<Longrightarrow>
   handle (app getTopics M)
     \<lparr>http_method = GET, path = [''api'', ''articles'', aid, ''comments''], query = q, body = b,
      params = p\<rparr> s
   = (case getCommentsByArticleId M
            \<lparr>http_method = GET, path = [''api'', ''articles'', aid, ''comments''], query = q,
             body = b, params = [(''article_id'', Str aid)]\<rparr> s of
        (Send r, s') \<Rightarrow>
          (deliver r (Unclassified (invalid_status_code (status r))), s')
      | (Next err, s') \<Rightarrow> (error_normalizer err, s'))"
  by (simp add: app_def handle_error_tail invalid_status_code_unclassified
      del: handle_error.simps(3)
      split: prod.split signal.split)

lemma handle_post_comment:
  "aid \<noteq> [] \<Longrightarrow>
   handle (app getTopics M)
     \<lparr>http_method = POST, path = [''api'', ''articles'', aid, ''comments''], query = q, body = b,
      params = p\<rparr> s
   = (case postCommentByArticleId M
            \<lparr>http_method = POST, path = [''api'', ''articles'', aid, ''comments''], query = q,
             body = b, params = [(''article_id'', Str aid)]\<rparr> s of
        (Send r, s') \<Rightarrow>
          (deliver r (Unclassified (invalid_status_code (status r))), s')
      | (Next err, s') \<Rightarrow> (error_normalizer err, s'))"
  by (simp add: app_def handle_error_tail invalid_status_code_unclassified
      del: handle_error.simps(3)
      split: prod.split signal.split)

section \<open>Identifiers\<close>

text \<open>
  The comments handler asks for the article first, whatever the models: when that lookup
  rejects, the comments are never fetched and the store is as the lookup left it.
\<close>

lemma getCommentsByArticleId_article_first:
  "fetchArticlesById M (property (params request) ''article_id'') s = (Inl err, s') \<Longrightarrow>
   getCommentsByArticleId M request s = (Next err, s')"
  by (simp add: getCommentsByArticleId_def)

text \<open>
  The earlier handler signals the invalid identifier and runs the lookup all the same.
\<close>

lemma getArticlesById_isNaN_always_looks_up:
  "snd (getArticlesById_isNaN isNaN M request s)
   = snd (fetchArticlesById M (property (params request) ''article_id'') s)"
  by (simp add: getArticlesById_isNaN_def Let_def split: prod.split sum.split)


section \<open>The models of the spec behind the routes\<close>

lemma store_integer_nonempty: "store_integer (Str aid) = Inr n \<Longrightarrow> aid \<noteq> []"
  by (auto simp add: store_integer_def split: if_splits)

lemma execute_fields [simp]:
  "articles (execute q s) = articles s"
  "comments (execute q s) = comments s"
  "users (execute q s) = users s"
  by (simp_all add: execute_def)




text \<open>
  C4. A GET of the comments of an article whose identifier is an integer of the store:
  when no article has that identifier, the answer is 404 with
  \<open>Article ID does not exist\<close> and the store has executed the article lookup only; when
  the article exists and no comment belongs to it, the answer is 200 with the empty
  sequence, the comments having been selected after the article.
\<close>

theorem comments_gated_by_article_lookup:
  assumes "aid \<noteq> []" and "list_all is_digit aid" and "decimal aid \<le> 2147483647"
  shows "(filter (\<lambda>a. property a ''article_id'' = Num (decimal aid)) (articles s) = [] \<longrightarrow>
            handle (app getTopics spec_models)
              \<lparr>http_method = GET, path = [''api'', ''articles'', aid, ''comments''], query = q,
               body = b, params = p\<rparr> s
            = (Responded \<lparr>status = Num 404,
                          sent = Obj [(''msg'', Str ''Article ID does not exist'')]\<rparr>,
               execute (SelectArticle (Str aid)) s))
       \<and> (filter (\<lambda>a. property a ''article_id'' = Num (decimal aid)) (articles s) \<noteq> []
          \<and> filter (\<lambda>c. property c ''article_id'' = Num (decimal aid)) (comments s) = [] \<longrightarrow>
            handle (app getTopics spec_models)
              \<lparr>http_method = GET, path = [''api'', ''articles'', aid, ''comments''], query = q,
               body = b, params = p\<rparr> s
            = (Responded \<lparr>status = Num 200, sent = Obj [(''comments'', Arr [])]\<rparr>,
               execute (SelectComments (Str aid)) (execute (SelectArticle (Str aid)) s)))"
proof -
  from assms have n: "store_integer (Str aid) = Inr (decimal aid)"
    by (simp add: store_integer_def)
  from assms have v: "valid_identifier (Str aid)"
    by (simp add: valid_identifier_def)
  from n v assms(1) show ?thesis
    by (auto simp add: handle_get_comments getCommentsByArticleId_def spec_models_def
        fetchArticlesById_spec_def fetchCommentsByArticleId_spec_def Let_def property_def
        error_normalizer_eq not_found_article_def order_by_def split: list.split)
qed

text \<open>The theorem at the store \<open>store0\<close>: no article 5667, and article 2 without comment.\<close>

theorem comments_gated_by_article_lookup_witness:
  "handle (app getTopics_spec spec_models)
     \<lparr>http_method = GET, path = [''api'', ''articles'', ''5667'', ''comments''], query = [],
      body = [], params = []\<rparr> store0
   = (Responded \<lparr>status = Num 404, sent = Obj [(''msg'', Str ''Article ID does not exist'')]\<rparr>,
      store0\<lparr>executed := [SelectArticle (Str ''5667'')]\<rparr>)
   \<and> handle (app getTopics_spec spec_models)
       \<lparr>http_method = GET, path = [''api'', ''articles'', ''2'', ''comments''], query = [],
        body = [], params = []\<rparr> store0
     = (Responded \<lparr>status = Num 200, sent = Obj [(''comments'', Arr [])]\<rparr>,
        store0\<lparr>executed := [SelectArticle (Str ''2''), SelectComments (Str ''2'')]\<rparr>)"
proof -
  have a: "list_all is_digit ''5667'' \<and> decimal ''5667'' = 5667"
    by (simp add: is_digit_def decimal_def)
  have b: "list_all is_digit ''2'' \<and> decimal ''2'' = 2"
    by (simp add: is_digit_def decimal_def)
  have c: "filter (\<lambda>a. property a ''article_id'' = Num 5667) (articles store0) = []"
    by (simp add: store0_def property_def)
  have d: "filter (\<lambda>a. property a ''article_id'' = Num 2) (articles store0) \<noteq> []"
    by (simp add: store0_def property_def)
  have e: "filter (\<lambda>c. property c ''article_id'' = Num 2) (comments store0) = []"
    by (simp add: store0_def property_def)
  have f: "execute (SelectArticle (Str ''5667'')) store0
           = store0\<lparr>executed := [SelectArticle (Str ''5667'')]\<rparr>"
    by (simp add: execute_def store0_def)
  have g: "execute (SelectComments (Str ''2'')) (execute (SelectArticle (Str ''2'')) store0)
           = store0\<lparr>executed := [SelectArticle (Str ''2''), SelectComments (Str ''2'')]\<rparr>"
    by (simp add: execute_def store0_def)
  from comments_gated_by_article_lookup
         [where aid = "''5667''" and s = store0 and getTopics = getTopics_spec and q = "[]"
            and b = "[]" and p = "[]"]
       comments_gated_by_article_lookup
         [where aid = "''2''" and s = store0 and getTopics = getTopics_spec and q = "[]"
            and b = "[]" and p = "[]"]
       a b c d e f g
  show ?thesis by simp
qed

text \<open>
  C8. A comment insertion whose payload lacks \<open>username\<close> or \<open>body\<close> (the absent payload
  is the empty object, which lacks both) is answered 400 with
  \<open>Malformed body/missing required fields\<close>, and the store is as it was: nothing
  executed, no row inserted.
\<close>

theorem missing_comment_field_is_malformed_body:
  assumes "property b ''username'' = Undefined \<or> property b ''body'' = Undefined"
    and "aid \<noteq> []"
  shows "handle (app getTopics spec_models)
           \<lparr>http_method = POST, path = [''api'', ''articles'', aid, ''comments''], query = q,
            body = b, params = p\<rparr> s
         = (Responded \<lparr>status = Num 400,
                       sent = Obj [(''msg'', Str ''Malformed body/missing required fields'')]\<rparr>,
            s)"
  using assms
  by (auto simp add: handle_post_comment postCommentByArticleId_def spec_models_def
      insertCommentByArticleId_spec_def Let_def error_normalizer_eq malformed_body_def
      property_def)

text \<open>The theorem at the absent payload, and at payloads with one field only.\<close>

theorem missing_comment_field_is_malformed_body_witness:
  "handle (app getTopics_spec spec_models)
     \<lparr>http_method = POST, path = [''api'', ''articles'', ''5'', ''comments''], query = [],
      body = [], params = []\<rparr> store0
   = (Responded \<lparr>status = Num 400,
                 sent = Obj [(''msg'', Str ''Malformed body/missing required fields'')]\<rparr>, store0)
   \<and> handle (app getTopics_spec spec_models)
     \<lparr>http_method = POST, path = [''api'', ''articles'', ''5'', ''comments''], query = [],
      body = [(''username'', Str ''hi'')], params = []\<rparr> store0
   = (Responded \<lparr>status = Num 400,
                 sent = Obj [(''msg'', Str ''Malformed body/missing required fields'')]\<rparr>, store0)
   \<and> handle (app getTopics_spec spec_models)
     \<lparr>http_method = POST, path = [''api'', ''articles'', ''5'', ''comments''], query = [],
      body = [(''body'', Str ''hi'')], params = []\<rparr> store0
   = (Responded \<lparr>status = Num 400,
                 sent = Obj [(''msg'', Str ''Malformed body/missing required fields'')]\<rparr>, store0)"
  using missing_comment_field_is_malformed_body [where b = "[]" and aid = "''5''" and getTopics = getTopics_spec and q = "[]"
            and p = "[]" and s = store0]
        missing_comment_field_is_malformed_body [where b = "[(''username'', Str ''hi'')]" and aid = "''5''"
            and getTopics = getTopics_spec and q = "[]" and p = "[]" and s = store0]
        missing_comment_field_is_malformed_body [where b = "[(''body'', Str ''hi'')]" and aid = "''5''"
            and getTopics = getTopics_spec and q = "[]" and p = "[]" and s = store0]
  by (simp add: property_def)

subsection \<open>The list of articles\<close>

lemma store_direction_default: "store_direction (default_order Undefined) = Some Desc"
  by (simp add: store_direction_def default_order_def lower_def)

lemma store_direction_word:
  "store_direction (default_order (Str w))
   = (if map lower w = ''asc'' then Some Asc
      else if map lower w = ''desc'' then Some Desc else None)"
  by (simp add: store_direction_def default_order_def)

lemma resolve_sort_outside:
  "sortBy \<noteq> Undefined \<Longrightarrow> sortBy \<notin> Str ` set sort_columns \<Longrightarrow>
   resolve_sort sortBy = Inl invalid_sort_column"
  by (auto simp add: resolve_sort_def split: jsval.split)

lemma fetchAllArticles_spec_invalid:
  "resolve_sort sortBy = Inl err \<Longrightarrow>
   fetchAllArticles_spec topic sortBy sortOrder s = (Inl err, s)"
  by (simp add: fetchAllArticles_spec_def)

lemma fetchAllArticles_spec_rows:
  "resolve_sort sortBy = Inr column \<Longrightarrow>
   store_direction (default_order sortOrder) = Some dir \<Longrightarrow>
   fetchAllArticles_spec topic sortBy sortOrder s
   = (Inr (Arr (map Obj (order_by column dir
        (if topic = Undefined then map (with_comment_count s) (articles s)
         else filter (\<lambda>a. property a ''topic'' = topic)
                (map (with_comment_count s) (articles s)))))),
      execute (SelectArticles topic column (default_order sortOrder)) s)"
  by (simp add: fetchAllArticles_spec_def Let_def)

lemma invalid_sort_column_normalized:
  "error_normalizer invalid_sort_column
   = Responded \<lparr>status = Num 400, sent = Obj [(''msg'', Str ''Invalid sort by query'')]\<rparr>"
  by (simp add: error_normalizer_eq invalid_sort_column_def property_def)

text \<open>
  C9. A requested sort column outside the allow-list is answered 400 with
  \<open>Invalid sort by query\<close>, the store untouched. With an allowed column, or none
  (\<open>created_at\<close> then), and an order token that is \<open>asc\<close> or \<open>desc\<close> in any case, or
  none (descending then), the answer is 200 with the articles, filtered by the topic if
  one is given, in that order.
\<close>

theorem sort_column_allow_list:
  "(property q ''sort_by'' \<noteq> Undefined
      \<and> property q ''sort_by'' \<notin> Str ` set sort_columns \<longrightarrow>
      handle (app getTopics spec_models)
        \<lparr>http_method = GET, path = [''api'', ''articles''], query = q, body = b, params = p\<rparr> s
      = (Responded \<lparr>status = Num 400, sent = Obj [(''msg'', Str ''Invalid sort by query'')]\<rparr>,
         s))
   \<and> ((property q ''sort_by'' = Undefined \<and> column = ''created_at''
         \<or> property q ''sort_by'' = Str column \<and> column \<in> set sort_columns)
       \<and> (property q ''order'' = Undefined \<and> dir = Desc
          \<or> property q ''order'' = Str w \<and> map lower w = ''asc'' \<and> dir = Asc
          \<or> property q ''order'' = Str w \<and> map lower w = ''desc'' \<and> dir = Desc) \<longrightarrow>
      fst (handle (app getTopics spec_models)
        \<lparr>http_method = GET, path = [''api'', ''articles''], query = q, body = b, params = p\<rparr> s)
      = Responded
          \<lparr>status = Num 200,
           sent = Obj [(''articles'',
             Arr (map Obj (order_by column dir
               (if property q ''topic'' = Undefined
                then map (with_comment_count s) (articles s)
                else filter (\<lambda>a. property a ''topic'' = property q ''topic'')
                       (map (with_comment_count s) (articles s))))))]\<rparr>)"
proof (intro conjI impI)
  assume "property q ''sort_by'' \<noteq> Undefined
            \<and> property q ''sort_by'' \<notin> Str ` set sort_columns"
  then have "resolve_sort (property q ''sort_by'') = Inl invalid_sort_column"
    by (simp add: resolve_sort_outside)
  then show "handle (app getTopics spec_models)
        \<lparr>http_method = GET, path = [''api'', ''articles''], query = q, body = b, params = p\<rparr> s
      = (Responded \<lparr>status = Num 400, sent = Obj [(''msg'', Str ''Invalid sort by query'')]\<rparr>,
         s)"
    by (simp add: handle_get_articles getAllArticles_def spec_models_def Let_def
        fetchAllArticles_spec_invalid invalid_sort_column_normalized)
next
  assume h: "(property q ''sort_by'' = Undefined \<and> column = ''created_at''
         \<or> property q ''sort_by'' = Str column \<and> column \<in> set sort_columns)
       \<and> (property q ''order'' = Undefined \<and> dir = Desc
          \<or> property q ''order'' = Str w \<and> map lower w = ''asc'' \<and> dir = Asc
          \<or> property q ''order'' = Str w \<and> map lower w = ''desc'' \<and> dir = Desc)"
  then have c: "resolve_sort (property q ''sort_by'') = Inr column"
    by (auto simp add: resolve_sort_def)
  from h have d: "store_direction (default_order (property q ''order'')) = Some dir"
    by (auto simp add: store_direction_default store_direction_word)
  show "fst (handle (app getTopics spec_models)
        \<lparr>http_method = GET, path = [''api'', ''articles''], query = q, body = b, params = p\<rparr> s)
      = Responded
          \<lparr>status = Num 200,
           sent = Obj [(''articles'',
             Arr (map Obj (order_by column dir
               (if property q ''topic'' = Undefined
                then map (with_comment_count s) (articles s)
                else filter (\<lambda>a. property a ''topic'' = property q ''topic'')
                       (map (with_comment_count s) (articles s))))))]\<rparr>"
    by (simp add: handle_get_articles getAllArticles_def spec_models_def Let_def
        fetchAllArticles_spec_rows[OF c d])
qed

text \<open>
  The theorem at a column outside the list, at \<open>votes\<close> ascending, and at the defaults
  with the topic \<open>cats\<close>.
\<close>

theorem sort_column_allow_list_witness:
  "handle (app getTopics_spec spec_models)
     \<lparr>http_method = GET, path = [''api'', ''articles''],
      query = [(''sort_by'', Str ''article_img_url'')], body = [], params = []\<rparr> store0
   = (Responded \<lparr>status = Num 400, sent = Obj [(''msg'', Str ''Invalid sort by query'')]\<rparr>,
      store0)
   \<and> fst (handle (app getTopics_spec spec_models)
     \<lparr>http_method = GET, path = [''api'', ''articles''],
      query = [(''sort_by'', Str ''votes''), (''order'', Str ''ASC'')], body = [],
      params = []\<rparr> store0)
   = Responded \<lparr>status = Num 200, sent = Obj [(''articles'',
       Arr (map Obj (order_by ''votes'' Asc (map (with_comment_count store0) (articles store0)))))]\<rparr>
   \<and> fst (handle (app getTopics_spec spec_models)
     \<lparr>http_method = GET, path = [''api'', ''articles''], query = [(''topic'', Str ''cats'')],
      body = [], params = []\<rparr> store0)
   = Responded \<lparr>status = Num 200, sent = Obj [(''articles'',
       Arr [Obj [(''article_id'', Num 5), (''title'', Str ''UNCOVERED''),
                 (''topic'', Str ''cats''), (''author'', Str ''rogersop''),
                 (''created_at'', Num 1596464040), (''votes'', Num 0),
                 (''comment_count'', Num 1)]])]\<rparr>"
proof -
  have l: "map lower ''ASC'' = ''asc''"
    by (simp add: lower_def)
  have rows: "order_by ''created_at'' Desc
          (filter (\<lambda>a. property a ''topic'' = Str ''cats'')
             (map (with_comment_count store0) (articles store0)))
        = [[(''article_id'', Num 5), (''title'', Str ''UNCOVERED''),
                 (''topic'', Str ''cats''), (''author'', Str ''rogersop''),
                 (''created_at'', Num 1596464040), (''votes'', Num 0),
                 (''comment_count'', Num 1)]]"
    by (simp add: order_by_def with_comment_count_def comment_count_def store0_def
        property_def)
  from sort_column_allow_list [where q = "[(''sort_by'', Str ''article_img_url'')]" and getTopics = getTopics_spec
            and b = "[]" and p = "[]" and s = store0]
       sort_column_allow_list [where q = "[(''sort_by'', Str ''votes''), (''order'', Str ''ASC'')]"
            and getTopics = getTopics_spec and b = "[]" and p = "[]" and s = store0
            and column = "''votes''" and dir = Asc and w = "''ASC''"]
       sort_column_allow_list [where q = "[(''topic'', Str ''cats'')]"
            and getTopics = getTopics_spec and b = "[]" and p = "[]" and s = store0
            and column = "''created_at''" and dir = Desc]
       l rows
  show ?thesis by (simp add: property_def sort_columns_def)
qed

end
